theory Spec2Isabelle
  imports Complex_Main
begin

section \<open>The values the page computes with\<close>

text \<open>
  \<^verbatim>\<open>match-page.tsx\<close> reads two scores of a match, compares them with \<^verbatim>\<open>===\<close> and
  \<^verbatim>\<open>>\<close> after \<^verbatim>\<open>Number(...)\<close>, tests them for truthiness and prints them with
  \<^verbatim>\<open>toFixed(1)\<close>. These are operations of the language, written out here for the
  values a score can be.
\<close>

text \<open>
  A number of the language: a finite value or NaN. A finite value is taken as the real
  number it denotes; equality and order of finite numbers are those of the reals, and
  both zeros are the real 0. The infinities are left out.
\<close>

datatype number = NaN | Fin real

text \<open>
  Modelled from the spec: the type \<^verbatim>\<open>Match\<close> of \<^verbatim>\<open>@shared/schema\<close> is not among
  the sources. The spec gives a match two optional numeric scores; the page strips
  absence from them with the non-null assertion \<^verbatim>\<open>!\<close>, which covers both
  \<^verbatim>\<open>null\<close> and \<^verbatim>\<open>undefined\<close>, so a score is one of the two absent values or a
  number.
\<close>

datatype jsval = Undefined | Null | Number number

text \<open>\<^verbatim>\<open>a === b\<close>: values of different types differ, NaN differs from itself.\<close>

fun strict_eq :: "jsval \<Rightarrow> jsval \<Rightarrow> bool" where
  "strict_eq Undefined Undefined = True"
| "strict_eq Null Null = True"
| "strict_eq (Number (Fin x)) (Number (Fin y)) = (x = y)"
| "strict_eq _ _ = False"

text \<open>\<^verbatim>\<open>Number(v)\<close>: \<^verbatim>\<open>undefined\<close> becomes NaN, \<^verbatim>\<open>null\<close> becomes 0.\<close>

fun ToNumber :: "jsval \<Rightarrow> number" where
  "ToNumber Undefined = NaN"
| "ToNumber Null = Fin 0"
| "ToNumber (Number n) = n"

text \<open>\<^verbatim>\<open>a > b\<close> on numbers: false as soon as one side is NaN.\<close>

fun gt :: "number \<Rightarrow> number \<Rightarrow> bool" where
  "gt (Fin x) (Fin y) = (y < x)"
| "gt _ _ = False"

text \<open>Truthiness: the absent values, NaN and 0 are falsy.\<close>

fun truthy :: "jsval \<Rightarrow> bool" where
  "truthy Undefined = False"
| "truthy Null = False"
| "truthy (Number NaN) = False"
| "truthy (Number (Fin x)) = (x \<noteq> 0)"

subsection \<open>\<^verbatim>\<open>toFixed(1)\<close>\<close>

definition digit :: "nat \<Rightarrow> char" where
  "digit d = ''0123456789'' ! d"

fun decimal :: "nat \<Rightarrow> string" where
  "decimal n = (if n < 10 then [digit n] else decimal (n div 10) @ [digit (n mod 10)])"

declare decimal.simps [simp del]

text \<open>
  \<^verbatim>\<open>Number.prototype.toFixed\<close> with one fraction digit. NaN prints as its name. A
  negative value prints the sign and then its magnitude. The magnitude \<open>a\<close> prints as
  the integer \<open>n\<close> nearest to \<open>10 * a\<close> (the larger one of two equally near), padded to
  two digits, with the point before the last digit. From \<open>10 ^ 21\<close> on the language
  prints exponent notation instead; those digits are the parameter \<open>expo\<close>.
\<close>

definition toFixed1 :: "(real \<Rightarrow> string) \<Rightarrow> number \<Rightarrow> string" where
  "toFixed1 expo v =
     (case v of
        NaN \<Rightarrow> ''NaN''
      | Fin x \<Rightarrow>
          (let s = (if x < 0 then ''-'' else '''');
               a = \<bar>x\<bar>
           in if 10 ^ 21 \<le> a then s @ expo a
              else
                (let n = nat \<lfloor>a * 10 + 1 / 2\<rfloor>;
                     m = decimal n;
                     m' = (if length m \<le> 1 then replicate (2 - length m) (CHR ''0'') @ m else m);
                     k = length m'
                 in s @ take (k - 1) m' @ ''.'' @ drop (k - 1) m')))"

section \<open>The match page\<close>

subsection \<open>What the component reads\<close>

text \<open>
  Modelled from the spec: \<^verbatim>\<open>Match\<close> (declared in \<^verbatim>\<open>@shared/schema\<close>, not among the
  sources) with the fields the page reads: the creator's id, the status string and the
  two optional numeric scores.
\<close>

record Match =
  creatorId :: nat
  status :: string
  creatorScore :: jsval
  invitedScore :: jsval

text \<open>A selected \<^verbatim>\<open>File\<close>, by its name (the only property the page reads).\<close>

type_synonym File = string

text \<open>The status of a mutation of the query library; \<^verbatim>\<open>isPending\<close> is its in-flight flag.\<close>

datatype mutation_status = Idle | Pending | Success | Error

definition isPending :: "mutation_status \<Rightarrow> bool" where
  "isPending st = (st = Pending)"

datatype form_value = FileValue File | TextValue string

text \<open>
  What leaves the component: a \<^verbatim>\<open>fetch\<close> (url, method, form fields, credentials) or a
  call of \<^verbatim>\<open>apiRequest\<close> (method, url), which is declared in \<^verbatim>\<open>@/lib/queryClient\<close>
  and not among the sources.
\<close>

datatype call =
    Fetch string string "(string \<times> form_value) list" string
  | ApiRequest string string

datatype toast = Toast (title: string) (description: string) (variant: "string option")

text \<open>
  The state around one mounted page: the \<^verbatim>\<open>useState\<close> cell, the result of
  \<^verbatim>\<open>useQuery\<close>, the two mutations' statuses, and the effects so far (network calls,
  query keys handed to \<^verbatim>\<open>invalidateQueries\<close>, toasts shown).
\<close>

record state =
  selectedFile :: "File option"
  match_data :: "Match option"
  isLoading :: bool
  respondMutation :: mutation_status
  compareMutation :: mutation_status
  calls :: "call list"
  invalidated :: "string list"
  toasts :: "toast list"

text \<open>\<^verbatim>\<open>`/api/matches/${params?.id}`\<close>: without params the template prints \<^verbatim>\<open>undefined\<close>.\<close>

definition matchUrl :: "string option \<Rightarrow> string" where
  "matchUrl pid = ''/api/matches/'' @ (case pid of None \<Rightarrow> ''undefined'' | Some i \<Rightarrow> i)"

subsection \<open>Promises and the mutations\<close>

text \<open>A settled promise: rejected with an error (its message) or resolved with a value.\<close>

datatype 'a promise = Rejected string | Resolved 'a

text \<open>What the backend answers to the \<^verbatim>\<open>fetch\<close>: no answer, or \<^verbatim>\<open>res.ok\<close> and the body text.\<close>

datatype fetch_reply = NetworkFailure string | Response bool string

definition String_bool :: "bool \<Rightarrow> string" where
  "String_bool b = (if b then ''true'' else ''false'')"

text \<open>\<^verbatim>\<open>respondMutation.mutationFn\<close> (lines 26-43).\<close>

definition respond_mutationFn ::
  "string option \<Rightarrow> fetch_reply \<Rightarrow> bool \<Rightarrow> state \<Rightarrow> unit promise \<times> state" where
  "respond_mutationFn pid reply accept s =
     (if accept \<and> selectedFile s = None then (Rejected ''No file selected'', s)
      else
        (let formData =
               (case selectedFile s of None \<Rightarrow> [] | Some f \<Rightarrow> [(''photo'', FileValue f)])
               @ [(''accept'', TextValue (String_bool accept))];
             s' = s\<lparr>calls := calls s @ [Fetch (matchUrl pid @ ''/respond'') ''POST'' formData ''include'']\<rparr>
         in (case reply of
               NetworkFailure e \<Rightarrow> (Rejected e, s')
             | Response ok body \<Rightarrow> if \<not> ok then (Rejected body, s') else (Resolved (), s'))))"

text \<open>\<^verbatim>\<open>respondMutation.onSuccess\<close> (lines 44-50).\<close>

definition respond_onSuccess :: "string option \<Rightarrow> unit \<Rightarrow> state \<Rightarrow> unit promise \<times> state" where
  "respond_onSuccess pid u s =
     (Resolved (),
      s\<lparr>invalidated := invalidated s @ [matchUrl pid],
        toasts := toasts s @ [Toast ''Response sent'' ''Your response has been recorded'' None]\<rparr>)"

text \<open>
  What \<^verbatim>\<open>apiRequest\<close> and then \<^verbatim>\<open>res.json()\<close> give: either may reject; the parsed
  body has the two scores the success toast reads.
\<close>

datatype compare_data = CompareData (data_creatorScore: jsval) (data_invitedScore: jsval)

datatype api_reply = ApiRejected string | JsonRejected string | Json compare_data

text \<open>\<^verbatim>\<open>compareMutation.mutationFn\<close> (lines 54-57).\<close>

definition compare_mutationFn ::
  "string option \<Rightarrow> api_reply \<Rightarrow> state \<Rightarrow> compare_data promise \<times> state" where
  "compare_mutationFn pid api s =
     (let s' = s\<lparr>calls := calls s @ [ApiRequest ''POST'' (matchUrl pid @ ''/compare'')]\<rparr>
      in (case api of
            ApiRejected e \<Rightarrow> (Rejected e, s')
          | JsonRejected e \<Rightarrow> (Rejected e, s')
          | Json d \<Rightarrow> (Resolved d, s')))"

text \<open>
  \<^verbatim>\<open>v.toFixed(1)\<close> as a method call: on an absent value the property read throws a
  TypeError (the message is the engine's).
\<close>

fun call_toFixed1 :: "(real \<Rightarrow> string) \<Rightarrow> jsval \<Rightarrow> string promise" where
  "call_toFixed1 expo Undefined =
     Rejected ''Cannot read properties of undefined (reading 'toFixed')''"
| "call_toFixed1 expo Null =
     Rejected ''Cannot read properties of null (reading 'toFixed')''"
| "call_toFixed1 expo (Number n) = Resolved (toFixed1 expo n)"

text \<open>\<^verbatim>\<open>compareMutation.onSuccess\<close> (lines 58-64): the invalidation comes first.\<close>

definition compare_onSuccess ::
  "(real \<Rightarrow> string) \<Rightarrow> string option \<Rightarrow> compare_data \<Rightarrow> state \<Rightarrow> unit promise \<times> state" where
  "compare_onSuccess expo pid d s =
     (let s1 = s\<lparr>invalidated := invalidated s @ [matchUrl pid]\<rparr>
      in (case call_toFixed1 expo (data_creatorScore d) of
            Rejected e \<Rightarrow> (Rejected e, s1)
          | Resolved a \<Rightarrow>
              (case call_toFixed1 expo (data_invitedScore d) of
                 Rejected e \<Rightarrow> (Rejected e, s1)
               | Resolved b \<Rightarrow>
                   (Resolved (),
                    s1\<lparr>toasts := toasts s1 @
                       [Toast ''Comparison complete''
                          (''Your score: '' @ a @ '', Their score: '' @ b) None]\<rparr>))))"

text \<open>\<^verbatim>\<open>compareMutation.onError\<close> (lines 65-71).\<close>

definition compare_onError :: "string \<Rightarrow> state \<Rightarrow> state" where
  "compare_onError e s =
     s\<lparr>toasts := toasts s @ [Toast ''Comparison failed'' e (Some ''destructive'')]\<rparr>"

text \<open>
  The query library runs a mutation: the function, then \<^verbatim>\<open>onSuccess\<close> with its
  value, or \<^verbatim>\<open>onError\<close> (when the options have one) with the error of the function or
  of \<^verbatim>\<open>onSuccess\<close>. \<^verbatim>\<open>mutate\<close> hands the error to nobody else: the outcome stays in
  the mutation's status.
\<close>

definition run_mutation ::
  "(state \<Rightarrow> 'a promise \<times> state) \<Rightarrow> ('a \<Rightarrow> state \<Rightarrow> unit promise \<times> state) \<Rightarrow>
   (string \<Rightarrow> state \<Rightarrow> state) option \<Rightarrow> state \<Rightarrow> 'a promise \<times> state" where
  "run_mutation mutationFn onSuccess onError s =
     (let handle = (\<lambda>e s'. case onError of None \<Rightarrow> s' | Some h \<Rightarrow> h e s')
      in (case mutationFn s of
            (Rejected e, s1) \<Rightarrow> (Rejected e, handle e s1)
          | (Resolved d, s1) \<Rightarrow>
              (case onSuccess d s1 of
                 (Rejected e, s2) \<Rightarrow> (Rejected e, handle e s2)
               | (Resolved u, s2) \<Rightarrow> (Resolved d, s2))))"

definition settled :: "'a promise \<Rightarrow> mutation_status" where
  "settled p = (case p of Rejected e \<Rightarrow> Error | Resolved d \<Rightarrow> Success)"

text \<open>
  \<^verbatim>\<open>respondMutation.mutate(accept)\<close> in two steps: the call puts the mutation in
  flight; the resolution runs it against the backend's reply and settles the status.
  The options of this mutation have no \<^verbatim>\<open>onError\<close>.
\<close>

definition respond_invoke :: "state \<Rightarrow> state" where
  "respond_invoke s = s\<lparr>respondMutation := Pending\<rparr>"

definition respond_outcome :: "string option \<Rightarrow> fetch_reply \<Rightarrow> bool \<Rightarrow> state \<Rightarrow> unit promise \<times> state" where
  "respond_outcome pid reply accept s =
     run_mutation (respond_mutationFn pid reply accept) (respond_onSuccess pid) None s"

definition respond_resolve :: "string option \<Rightarrow> fetch_reply \<Rightarrow> bool \<Rightarrow> state \<Rightarrow> state" where
  "respond_resolve pid reply accept s =
     (case respond_outcome pid reply accept s of
        (p, s') \<Rightarrow> s'\<lparr>respondMutation := settled p\<rparr>)"

definition respond_mutate :: "string option \<Rightarrow> fetch_reply \<Rightarrow> bool \<Rightarrow> state \<Rightarrow> state" where
  "respond_mutate pid reply accept s = respond_resolve pid reply accept (respond_invoke s)"

text \<open>\<^verbatim>\<open>compareMutation.mutate()\<close>, likewise.\<close>

definition compare_invoke :: "state \<Rightarrow> state" where
  "compare_invoke s = s\<lparr>compareMutation := Pending\<rparr>"

definition compare_outcome ::
  "(real \<Rightarrow> string) \<Rightarrow> string option \<Rightarrow> api_reply \<Rightarrow> state \<Rightarrow> compare_data promise \<times> state" where
  "compare_outcome expo pid api s =
     run_mutation (compare_mutationFn pid api) (compare_onSuccess expo pid) (Some compare_onError) s"

definition compare_resolve :: "(real \<Rightarrow> string) \<Rightarrow> string option \<Rightarrow> api_reply \<Rightarrow> state \<Rightarrow> state" where
  "compare_resolve expo pid api s =
     (case compare_outcome expo pid api s of
        (p, s') \<Rightarrow> s'\<lparr>compareMutation := settled p\<rparr>)"

definition compare_mutate :: "(real \<Rightarrow> string) \<Rightarrow> string option \<Rightarrow> api_reply \<Rightarrow> state \<Rightarrow> state" where
  "compare_mutate expo pid api s = compare_resolve expo pid api (compare_invoke s)"

subsection \<open>Rendering\<close>

datatype action = RespondMutate bool | CompareMutate

datatype button = Button (label: string) (onClick: action) (disabled: bool)

text \<open>The five conditional blocks of the card (lines 103-230), with what varies in each.\<close>

datatype block =
    Challenge "File option" button button
  | WaitingForResponse
  | ReadyToCompare button
  | Processing
  | Results (className: string) (message: string) (yourScore: string) (theirScore: string)

datatype page = ProgressBar | NoPage | Card "block list"

text \<open>\<^verbatim>\<open>user?.id === match.creatorId\<close> (line 88); \<open>user\<close> is the id of the signed-in user.\<close>

definition isCreator :: "nat option \<Rightarrow> Match \<Rightarrow> bool" where
  "isCreator user m = (case user of None \<Rightarrow> False | Some uid \<Rightarrow> uid = creatorId m)"

text \<open>The comparison inside both ternaries of lines 190 and 197.\<close>

definition viewerAhead :: "bool \<Rightarrow> Match \<Rightarrow> bool" where
  "viewerAhead isC m =
     (if isC then gt (ToNumber (creatorScore m)) (ToNumber (invitedScore m))
      else gt (ToNumber (invitedScore m)) (ToNumber (creatorScore m)))"

definition resultClass :: "bool \<Rightarrow> Match \<Rightarrow> string" where
  "resultClass isC m =
     (if strict_eq (creatorScore m) (invitedScore m) then ''bg-blue-500/10''
      else if viewerAhead isC m then ''bg-green-500/10'' else ''bg-red-500/10'')"

definition resultMessage :: "bool \<Rightarrow> Match \<Rightarrow> string" where
  "resultMessage isC m =
     (if strict_eq (creatorScore m) (invitedScore m) then ''It's a tie!''
      else if viewerAhead isC m then ''You won!'' else ''Your friend won!'')"

text \<open>\<^verbatim>\<open>v ? Number(v).toFixed(1) : '-'\<close>, the inner ternary of lines 207-225.\<close>

definition scoreText :: "(real \<Rightarrow> string) \<Rightarrow> jsval \<Rightarrow> string" where
  "scoreText expo v = (if truthy v then toFixed1 expo (ToNumber v) else ''-'')"

definition yourScoreText :: "(real \<Rightarrow> string) \<Rightarrow> bool \<Rightarrow> Match \<Rightarrow> string" where
  "yourScoreText expo isC m =
     (if isC then scoreText expo (creatorScore m) else scoreText expo (invitedScore m))"

definition theirScoreText :: "(real \<Rightarrow> string) \<Rightarrow> bool \<Rightarrow> Match \<Rightarrow> string" where
  "theirScoreText expo isC m =
     (if isC then scoreText expo (invitedScore m) else scoreText expo (creatorScore m))"

text \<open>\<^verbatim>\<open>{cond && (...)}\<close>: the block when the condition holds, nothing otherwise.\<close>

definition shown :: "bool \<Rightarrow> block \<Rightarrow> block list" where
  "shown cond b = (if cond then [b] else [])"

text \<open>The component's return value (lines 74-234).\<close>

definition MatchPage :: "(real \<Rightarrow> string) \<Rightarrow> nat option \<Rightarrow> state \<Rightarrow> page" where
  "MatchPage expo user s =
     (if isLoading s then ProgressBar
      else
        (case match_data s of
           None \<Rightarrow> NoPage
         | Some m \<Rightarrow>
             (let isC = isCreator user m;
                  isPend = (status m = ''pending'');
                  isReady = (status m = ''ready'');
                  isCompleted = (status m = ''completed'')
              in Card
                   (shown (isPend \<and> \<not> isC)
                      (Challenge (selectedFile s)
                         (Button ''Accept Challenge'' (RespondMutate True)
                            (selectedFile s = None \<or> isPending (respondMutation s)))
                         (Button ''Decline'' (RespondMutate False)
                            (isPending (respondMutation s))))
                    @ shown (isPend \<and> isC) WaitingForResponse
                    @ shown (isReady \<and> isC)
                        (ReadyToCompare
                           (Button ''Compare Photos'' CompareMutate (isPending (compareMutation s))))
                    @ shown (isReady \<and> \<not> isC) Processing
                    @ shown isCompleted
                        (Results (resultClass isC m) (resultMessage isC m)
                           (yourScoreText expo isC m) (theirScoreText expo isC m))))))"

subsection \<open>Reading a rendered page\<close>

text \<open>The buttons a page shows, and whether an action has an enabled button on it.\<close>

fun block_buttons :: "block \<Rightarrow> button list" where
  "block_buttons (Challenge f a d) = [a, d]"
| "block_buttons (ReadyToCompare b) = [b]"
| "block_buttons _ = []"

fun buttons :: "page \<Rightarrow> button list" where
  "buttons (Card bs) = concat (map block_buttons bs)"
| "buttons _ = []"

definition enabled :: "action \<Rightarrow> page \<Rightarrow> bool" where
  "enabled a p = list_ex (\<lambda>b. onClick b = a \<and> \<not> disabled b) (buttons p)"

text \<open>The five views of the spec's table, and the view a block is.\<close>

datatype view = UploadRespond | CreatorWaiting | CreatorCompare | InvitedProcessing | ResultView

fun view_of :: "block \<Rightarrow> view" where
  "view_of (Challenge f a d) = UploadRespond"
| "view_of WaitingForResponse = CreatorWaiting"
| "view_of (ReadyToCompare b) = CreatorCompare"
| "view_of Processing = InvitedProcessing"
| "view_of (Results c t y z) = ResultView"

text \<open>The spec's table of section 4.1, row by row.\<close>

definition view_table :: "string \<Rightarrow> bool \<Rightarrow> view option" where
  "view_table st isC =
     (if st = ''pending'' \<and> \<not> isC then Some UploadRespond
      else if st = ''pending'' \<and> isC then Some CreatorWaiting
      else if st = ''ready'' \<and> isC then Some CreatorCompare
      else if st = ''ready'' \<and> \<not> isC then Some InvitedProcessing
      else if st = ''completed'' then Some ResultView
      else None)"

text \<open>The three outcomes, and the outcome a result alert (class and message) stands for.\<close>

datatype outcome = TIE | WIN | LOSS

definition outcome_of :: "string \<Rightarrow> string \<Rightarrow> outcome option" where
  "outcome_of cls msg =
     (if cls = ''bg-blue-500/10'' \<and> msg = ''It's a tie!'' then Some TIE
      else if cls = ''bg-green-500/10'' \<and> msg = ''You won!'' then Some WIN
      else if cls = ''bg-red-500/10'' \<and> msg = ''Your friend won!'' then Some LOSS
      else None)"

definition absent :: "jsval \<Rightarrow> bool" where
  "absent v = (v = Undefined \<or> v = Null)"

subsection \<open>A freshly loaded page\<close>

text \<open>
  The state once the query has delivered a match: \<^verbatim>\<open>useState(null)\<close> holds no file,
  both mutations are idle, nothing has happened yet.
\<close>

definition loaded :: "Match \<Rightarrow> state" where
  "loaded m = \<lparr>selectedFile = None, match_data = Some m, isLoading = False,
     respondMutation = Idle, compareMutation = Idle, calls = [], invalidated = [], toasts = []\<rparr>"

text \<open>A pending match of creator 1, and completed matches with a zero and with a missing score.\<close>

definition pending_match :: Match where
  "pending_match = \<lparr>creatorId = 1, status = ''pending'', creatorScore = Null, invitedScore = Null\<rparr>"

definition zero_score_match :: Match where
  "zero_score_match = \<lparr>creatorId = 1, status = ''completed'',
     creatorScore = Number (Fin 0), invitedScore = Number (Fin (65 / 10))\<rparr>"

definition half_scored_match :: Match where
  "half_scored_match = \<lparr>creatorId = 1, status = ''completed'',
     creatorScore = Number (Fin 8), invitedScore = Null\<rparr>"

section \<open>Properties\<close>

lemma loaded_fields:
  "selectedFile (loaded m) = None" "match_data (loaded m) = Some m" "\<not> isLoading (loaded m)"
  "respondMutation (loaded m) = Idle" "compareMutation (loaded m) = Idle"
  "calls (loaded m) = []" "invalidated (loaded m) = []" "toasts (loaded m) = []"
  by (simp_all add: loaded_def)

subsection \<open>The examples of the spec\<close>

lemma toFixed1_examples:
  "toFixed1 expo (Fin (782 / 100)) = ''7.8''"
  "toFixed1 expo (Fin 8) = ''8.0''"
  "toFixed1 expo (Fin (65 / 10)) = ''6.5''"
  "toFixed1 expo (Fin 0) = ''0.0''"
  by (simp add: toFixed1_def Let_def, simp add: decimal.simps digit_def)+

subsection \<open>The outcome of a completed match\<close>

text \<open>
  C1. For a completed match whose two scores are both present, the result alert (its
  class and its message together) stands for exactly one of TIE, WIN and LOSS: TIE
  exactly when the two raw scores are equal as numbers, otherwise WIN when the viewer's
  own score is strictly greater than the other one, otherwise LOSS. The viewer's own
  score is the creator's for the creator and the invited one's for anybody else.
\<close>

theorem outcome_classification:
  assumes "creatorScore m = Number (Fin c)" and "invitedScore m = Number (Fin i)"
  shows "outcome_of (resultClass isC m) (resultMessage isC m) =
           Some (if c = i then TIE
                 else if (if isC then i < c else c < i) then WIN else LOSS)"
  using assms by (simp add: outcome_of_def resultClass_def resultMessage_def viewerAhead_def)

theorem outcome_classification_witness:
  "outcome_of
     (resultClass True \<lparr>creatorId = 1, status = ''completed'',
        creatorScore = Number (Fin (782 / 100)), invitedScore = Number (Fin (784 / 100))\<rparr>)
     (resultMessage True \<lparr>creatorId = 1, status = ''completed'',
        creatorScore = Number (Fin (782 / 100)), invitedScore = Number (Fin (784 / 100))\<rparr>)
   = Some LOSS"
  using outcome_classification [of "\<lparr>creatorId = 1, status = ''completed'',
        creatorScore = Number (Fin (782 / 100)), invitedScore = Number (Fin (784 / 100))\<rparr>"
        "782 / 100" "784 / 100" True]
  by simp

subsection \<open>Which view renders\<close>

text \<open>
  C3. For a loaded match whose status is pending, ready or completed, and any viewer,
  the card holds exactly one block, and it is the view the spec's table gives for the
  status and for whether the viewer is the creator.
\<close>

theorem exactly_one_view:
  assumes "\<not> isLoading s" and "match_data s = Some m"
    and "status m = ''pending'' \<or> status m = ''ready'' \<or> status m = ''completed''"
  shows "\<exists>b. MatchPage expo user s = Card [b] \<and>
             view_table (status m) (isCreator user m) = Some (view_of b)"
  using assms by (auto simp: MatchPage_def shown_def view_table_def Let_def)

theorem exactly_one_view_witness:
  "\<exists>b. MatchPage (\<lambda>x. []) (Some 1)
          (loaded \<lparr>creatorId = 1, status = ''ready'', creatorScore = Null, invitedScore = Null\<rparr>)
        = Card [b] \<and> view_of b = CreatorCompare"
  using exactly_one_view [of "loaded \<lparr>creatorId = 1, status = ''ready'', creatorScore = Null, invitedScore = Null\<rparr>"
      "\<lparr>creatorId = 1, status = ''ready'', creatorScore = Null, invitedScore = Null\<rparr>" "\<lambda>x. []" "Some 1"]
  by (auto simp: loaded_def view_table_def isCreator_def)

subsection \<open>The Compare button\<close>

lemma compare_resolve_status:
  "compareMutation (compare_resolve expo pid api s) = settled (fst (compare_outcome expo pid api s))"
  by (simp add: compare_resolve_def split: prod.splits)

lemma settled_not_Pending: "settled p \<noteq> Pending"
  by (simp add: settled_def split: promise.splits)

text \<open>
  C4. The page has an enabled Compare button exactly when a match is loaded, its status
  is ready, the viewer is its creator and no Compare request is in flight. In every
  other combination of status and role the button is not on the page. Once Compare is
  invoked the button is disabled, and when the request resolves the mutation is no
  longer in flight.
\<close>

theorem compare_enabled_iff:
  "(enabled CompareMutate (MatchPage expo user s) \<longleftrightarrow>
      \<not> isLoading s \<and>
      (\<exists>m. match_data s = Some m \<and> status m = ''ready'' \<and> isCreator user m) \<and>
      \<not> isPending (compareMutation s)) \<and>
   \<not> enabled CompareMutate (MatchPage expo user (compare_invoke s)) \<and>
   \<not> isPending (compareMutation (compare_resolve expo pid api s))"
proof (intro conjI)
  show "enabled CompareMutate (MatchPage expo user s) \<longleftrightarrow>
      \<not> isLoading s \<and>
      (\<exists>m. match_data s = Some m \<and> status m = ''ready'' \<and> isCreator user m) \<and>
      \<not> isPending (compareMutation s)"
    by (auto simp: MatchPage_def enabled_def shown_def Let_def split: option.splits)
  show "\<not> enabled CompareMutate (MatchPage expo user (compare_invoke s))"
    by (auto simp: MatchPage_def enabled_def shown_def Let_def compare_invoke_def isPending_def
        split: option.splits)
  show "\<not> isPending (compareMutation (compare_resolve expo pid api s))"
    by (simp add: compare_resolve_status settled_not_Pending isPending_def)
qed

subsection \<open>Responding\<close>

text \<open>
  C5 does not hold as stated: with no photo selected, once Decline has been clicked
  the Respond request is in flight and the Decline button is disabled as well.
\<close>

theorem decline_disabled_in_flight:
  "selectedFile (respond_invoke (loaded pending_match)) = None \<and>
   MatchPage (\<lambda>x. []) (Some 2) (respond_invoke (loaded pending_match)) =
     Card [Challenge None (Button ''Accept Challenge'' (RespondMutate True) True)
                          (Button ''Decline'' (RespondMutate False) True)] \<and>
   \<not> enabled (RespondMutate False)
       (MatchPage (\<lambda>x. []) (Some 2) (respond_invoke (loaded pending_match)))"
  by (simp add: MatchPage_def enabled_def shown_def Let_def respond_invoke_def loaded_def
      pending_match_def isCreator_def isPending_def)

text \<open>
  C5, amended. With no photo selected, Respond with accept = true fails with the error
  "No file selected" before anything is sent: the state is unchanged, the whole mutation
  adds no network call and ends in the error status. In the view of a pending match for
  somebody who is not the creator, with no photo selected, the Accept button is
  disabled, and the Decline button is enabled exactly when no Respond request is in
  flight.
\<close>

theorem accept_without_photo:
  assumes "selectedFile s = None"
  shows "respond_mutationFn pid reply True s = (Rejected ''No file selected'', s) \<and>
         calls (respond_mutate pid reply True s) = calls s \<and>
         respondMutation (respond_mutate pid reply True s) = Error \<and>
         (\<not> isLoading s \<and> match_data s = Some m \<and> status m = ''pending'' \<and> \<not> isCreator user m \<longrightarrow>
            MatchPage expo user s =
              Card [Challenge None (Button ''Accept Challenge'' (RespondMutate True) True)
                      (Button ''Decline'' (RespondMutate False) (isPending (respondMutation s)))] \<and>
            \<not> enabled (RespondMutate True) (MatchPage expo user s) \<and>
            (enabled (RespondMutate False) (MatchPage expo user s) \<longleftrightarrow>
               \<not> isPending (respondMutation s)))"
  using assms
  by (auto simp: respond_mutate_def respond_resolve_def respond_outcome_def run_mutation_def
      respond_mutationFn_def respond_invoke_def settled_def MatchPage_def enabled_def shown_def Let_def)

theorem accept_without_photo_witness:
  "respond_mutationFn (Some ''7'') (Response True []) True (loaded pending_match) =
     (Rejected ''No file selected'', loaded pending_match) \<and>
   calls (respond_mutate (Some ''7'') (Response True []) True (loaded pending_match)) = [] \<and>
   \<not> enabled (RespondMutate True) (MatchPage (\<lambda>x. []) (Some 2) (loaded pending_match)) \<and>
   enabled (RespondMutate False) (MatchPage (\<lambda>x. []) (Some 2) (loaded pending_match))"
proof -
  have h: "selectedFile (loaded pending_match) = None"
    by (simp add: loaded_fields)
  have v: "\<not> isLoading (loaded pending_match) \<and>
      match_data (loaded pending_match) = Some pending_match \<and>
      status pending_match = ''pending'' \<and> \<not> isCreator (Some 2) pending_match"
    by (simp add: loaded_fields pending_match_def isCreator_def)
  have i: "\<not> isPending (respondMutation (loaded pending_match))"
    by (simp add: loaded_fields isPending_def)
  from accept_without_photo [OF h, of "Some ''7''" "Response True []" pending_match "Some 2" "\<lambda>x. []"] v i
  show ?thesis by (simp add: loaded_fields enabled_def)
qed

text \<open>
  C6. Respond with accept = false passes the validation whatever the selected file is:
  it always sends one request (with the photo field only when a file is selected), and
  its outcome is the backend's reply alone. The whole mutation adds exactly one call.
\<close>

theorem decline_always_calls:
  "respond_mutationFn pid reply False s =
     ((case reply of
         NetworkFailure e \<Rightarrow> Rejected e
       | Response ok body \<Rightarrow> if ok then Resolved () else Rejected body),
      s\<lparr>calls := calls s @
           [Fetch (matchUrl pid @ ''/respond'') ''POST''
              ((case selectedFile s of None \<Rightarrow> [] | Some f \<Rightarrow> [(''photo'', FileValue f)])
               @ [(''accept'', TextValue ''false'')])
              ''include'']\<rparr>) \<and>
   length (calls (respond_mutate pid reply False s)) = Suc (length (calls s))"
  by (simp add: respond_mutationFn_def String_bool_def respond_mutate_def respond_resolve_def
      respond_outcome_def run_mutation_def respond_invoke_def respond_onSuccess_def Let_def
      split: fetch_reply.splits)

subsection \<open>Failures\<close>

text \<open>
  C7. Respond hands the match's query key to the invalidation exactly when the
  validation passes and the backend answers with success; Compare exactly when
  \<^verbatim>\<open>apiRequest\<close> and the parsing of its body both succeed. In every case, failures
  included, the match snapshot, the loading flag and the selected file stay as they
  were.
\<close>

theorem invalidation_only_on_success:
  "invalidated (respond_mutate pid reply accept s) =
     (if \<not> (accept \<and> selectedFile s = None) \<and> (\<exists>body. reply = Response True body)
      then invalidated s @ [matchUrl pid] else invalidated s) \<and>
   match_data (respond_mutate pid reply accept s) = match_data s \<and>
   isLoading (respond_mutate pid reply accept s) = isLoading s \<and>
   selectedFile (respond_mutate pid reply accept s) = selectedFile s \<and>
   invalidated (compare_mutate expo pid api s) =
     (if (\<exists>d. api = Json d) then invalidated s @ [matchUrl pid] else invalidated s) \<and>
   match_data (compare_mutate expo pid api s) = match_data s \<and>
   isLoading (compare_mutate expo pid api s) = isLoading s \<and>
   selectedFile (compare_mutate expo pid api s) = selectedFile s"
proof -
  have r: "invalidated (respond_mutate pid reply accept s) =
     (if \<not> (accept \<and> selectedFile s = None) \<and> (\<exists>body. reply = Response True body)
      then invalidated s @ [matchUrl pid] else invalidated s) \<and>
   match_data (respond_mutate pid reply accept s) = match_data s \<and>
   isLoading (respond_mutate pid reply accept s) = isLoading s \<and>
   selectedFile (respond_mutate pid reply accept s) = selectedFile s"
    by (cases reply)
      (auto simp: respond_mutate_def respond_resolve_def respond_outcome_def run_mutation_def
        respond_mutationFn_def respond_onSuccess_def respond_invoke_def Let_def)
  have c: "invalidated (compare_mutate expo pid api s) =
     (if (\<exists>d. api = Json d) then invalidated s @ [matchUrl pid] else invalidated s) \<and>
   match_data (compare_mutate expo pid api s) = match_data s \<and>
   isLoading (compare_mutate expo pid api s) = isLoading s \<and>
   selectedFile (compare_mutate expo pid api s) = selectedFile s"
    by (cases api)
      (auto simp: compare_mutate_def compare_resolve_def compare_outcome_def run_mutation_def
        compare_mutationFn_def compare_onSuccess_def compare_onError_def compare_invoke_def Let_def
        split: promise.splits)
  from r c show ?thesis by simp
qed

text \<open>
  C2. A failed Respond shows nothing: its options have no \<^verbatim>\<open>onError\<close>, so after a
  rejection by the backend or a network failure the toasts are what they were and only
  the mutation's status records the error. A failed Compare does show the destructive
  toast "Comparison failed" with the error's message.
\<close>

theorem respond_failure_without_toast:
  "toasts (respond_mutate pid (Response False body) accept s) = toasts s \<and>
   toasts (respond_mutate pid (NetworkFailure e) accept s) = toasts s \<and>
   respondMutation (respond_mutate pid (Response False body) accept s) = Error \<and>
   toasts (compare_mutate expo pid (ApiRejected e) s) =
     toasts s @ [Toast ''Comparison failed'' e (Some ''destructive'')]"
  by (simp add: respond_mutate_def respond_resolve_def respond_outcome_def run_mutation_def
        respond_mutationFn_def respond_invoke_def Let_def settled_def
        compare_mutate_def compare_resolve_def compare_outcome_def
        compare_mutationFn_def compare_onError_def compare_invoke_def)

subsection \<open>The scores of the result view\<close>

lemma scoreText_cases:
  "scoreText expo v =
     (case v of
        Number (Fin x) \<Rightarrow> if x = 0 then ''-'' else toFixed1 expo (Fin x)
      | _ \<Rightarrow> ''-'')"
  by (cases v rule: truthy.cases) (simp_all add: scoreText_def)

text \<open>
  C8. The result view prints a score with one decimal only when the score is truthy.
  For the creator of a completed match with scores 0 and 6.5 the page shows the
  placeholder as "Your Score", not "0.0", beside "6.5" for the other score.
\<close>

theorem zero_score_page:
  "MatchPage expo (Some 1) (loaded zero_score_match) =
     Card [Results ''bg-red-500/10'' ''Your friend won!'' ''-'' ''6.5'']"
proof -
  have "scoreText expo (Number (Fin (65 / 10))) = ''6.5''"
    by (simp add: scoreText_def toFixed1_def Let_def, simp add: decimal.simps digit_def)
  then show ?thesis
    by (simp add: MatchPage_def loaded_def zero_score_match_def isCreator_def shown_def Let_def
        resultClass_def resultMessage_def viewerAhead_def yourScoreText_def theirScoreText_def
        scoreText_def)
qed

text \<open>
  C10. A score that is the number 0 prints as the placeholder, exactly as
  \<^verbatim>\<open>null\<close> and \<^verbatim>\<open>undefined\<close> do, although \<^verbatim>\<open>toFixed(1)\<close> of 0 is "0.0"; this holds
  in both cells of the result view and for both roles.
\<close>

theorem zero_score_as_placeholder:
  "scoreText expo (Number (Fin 0)) = ''-'' \<and>
   scoreText expo Null = ''-'' \<and> scoreText expo Undefined = ''-'' \<and>
   toFixed1 expo (Fin 0) = ''0.0'' \<and>
   yourScoreText expo True (m\<lparr>creatorScore := Number (Fin 0)\<rparr>) = ''-'' \<and>
   theirScoreText expo False (m\<lparr>creatorScore := Number (Fin 0)\<rparr>) = ''-'' \<and>
   yourScoreText expo False (m\<lparr>invitedScore := Number (Fin 0)\<rparr>) = ''-'' \<and>
   theirScoreText expo True (m\<lparr>invitedScore := Number (Fin 0)\<rparr>) = ''-''"
  by (simp add: scoreText_def yourScoreText_def theirScoreText_def toFixed1_examples)

subsection \<open>A completed match with one score missing\<close>

text \<open>
  C9 does not hold as stated: when the missing score is \<^verbatim>\<open>null\<close>, \<^verbatim>\<open>Number\<close> makes
  it 0, not NaN, and the creator of a match with scores 8 and \<^verbatim>\<open>null\<close> is told
  "You won!".
\<close>

theorem half_scored_creator_wins:
  "\<not> absent (creatorScore half_scored_match) \<and> absent (invitedScore half_scored_match) \<and>
   resultMessage True half_scored_match = ''You won!'' \<and>
   outcome_of (resultClass True half_scored_match) (resultMessage True half_scored_match) = Some WIN"
  by (simp add: half_scored_match_def absent_def resultClass_def resultMessage_def viewerAhead_def
      outcome_of_def)

text \<open>
  C9, amended. For a completed match with exactly one score absent (\<open>a\<close>) and the other
  one the number \<open>x\<close>, the classification always produces an outcome, never TIE. It is
  LOSS for every role when the absent score is \<^verbatim>\<open>undefined\<close>. When it is \<^verbatim>\<open>null\<close>,
  which counts as 0, it is WIN for the viewer whose own score is the present one if
  \<open>x\<close> is above 0, WIN for the other viewer if \<open>x\<close> is below 0, and LOSS otherwise.
  (\<open>own\<close> says that the viewer's own score is the present one.)
\<close>

theorem one_score_absent:
  assumes "absent a"
    and "creatorScore m = Number (Fin x) \<and> invitedScore m = a \<and> own = isC \<or>
         creatorScore m = a \<and> invitedScore m = Number (Fin x) \<and> own = (\<not> isC)"
  shows "outcome_of (resultClass isC m) (resultMessage isC m) =
           Some (if a = Null \<and> (if own then 0 < x else x < 0) then WIN else LOSS)"
  using assms
  by (auto simp: absent_def outcome_of_def resultClass_def resultMessage_def viewerAhead_def)

theorem one_score_absent_witness:
  "outcome_of
     (resultClass False \<lparr>creatorId = 1, status = ''completed'',
        creatorScore = Number (Fin 8), invitedScore = Undefined\<rparr>)
     (resultMessage False \<lparr>creatorId = 1, status = ''completed'',
        creatorScore = Number (Fin 8), invitedScore = Undefined\<rparr>) = Some LOSS \<and>
   outcome_of
     (resultClass True \<lparr>creatorId = 1, status = ''completed'',
        creatorScore = Number (Fin 8), invitedScore = Undefined\<rparr>)
     (resultMessage True \<lparr>creatorId = 1, status = ''completed'',
        creatorScore = Number (Fin 8), invitedScore = Undefined\<rparr>) = Some LOSS \<and>
   outcome_of
     (resultClass False \<lparr>creatorId = 1, status = ''completed'',
        creatorScore = Number (Fin 8), invitedScore = Null\<rparr>)
     (resultMessage False \<lparr>creatorId = 1, status = ''completed'',
        creatorScore = Number (Fin 8), invitedScore = Null\<rparr>) = Some LOSS"
proof -
  have u: "absent Undefined" and n: "absent Null"
    by (simp_all add: absent_def)
  show ?thesis
    using one_score_absent [OF u, of "\<lparr>creatorId = 1, status = ''completed'',
        creatorScore = Number (Fin 8), invitedScore = Undefined\<rparr>" 8 False False]
      one_score_absent [OF u, of "\<lparr>creatorId = 1, status = ''completed'',
        creatorScore = Number (Fin 8), invitedScore = Undefined\<rparr>" 8 True True]
      one_score_absent [OF n, of "\<lparr>creatorId = 1, status = ''completed'',
        creatorScore = Number (Fin 8), invitedScore = Null\<rparr>" 8 False False]
    by simp
qed

end
